theory Spec2Isabelle
  imports Complex_Main
begin

section \<open>Values and errors\<close>

text \<open>
  The objects \<^verbatim>\<open>yaml.safe_load\<close> hands to the module. A Python \<^verbatim>\<open>float\<close> is only
  stored and compared by the configuration code, never computed with, and is read here as a
  real number.
\<close>

datatype yaml =
    YNull
  | YBool bool
  | YInt int
  | YFloat real
  | YStr string
  | YSeq "yaml list"
  | YMap "(yaml \<times> yaml) list"

text \<open>
  The exceptions of the module. \<open>ValueError\<close> carries the message of the \<^verbatim>\<open>raise\<close>.
  \<open>ValidationError\<close> is pydantic's: one entry per failing location, the location (a field name,
  or \<^verbatim>\<open>__root__\<close> for the root validator) and a message. \<open>AttributeError\<close> and \<open>KeyError\<close>
  are what a failed attribute or dictionary lookup raises; \<open>Dangling\<close> is no Python exception,
  it marks a reference to no object in an ill-formed store.
\<close>

datatype error =
    ValueError string
  | ValidationError "(string \<times> string) list"
  | AttributeError string
  | KeyError string
  | Dangling

section \<open>PromptCache\<close>

text \<open>
  \<^verbatim>\<open>prompts: dict[str, torch.FloatTensor] = {}\<close> stands in the class body: the dictionary is
  created once, when the class statement runs, and the class attribute \<^verbatim>\<open>prompts\<close> refers to
  it. The class has no \<^verbatim>\<open>__init__\<close>, so an instance starts with an empty attribute
  dictionary of its own. The store keeps the dictionary objects by reference, the attributes of
  the class, and the attributes of every instance; \<^verbatim>\<open>self.prompts\<close> is Python's attribute
  lookup, the instance first and the class second. \<open>'v\<close> is the type of the cached tensors.
  \<open>setitem\<close> and \<open>getitem\<close> are the methods \<^verbatim>\<open>__setitem__\<close> and \<^verbatim>\<open>__getitem__\<close>;
  \<open>PromptCache_new\<close> is the call \<^verbatim>\<open>PromptCache()\<close>.
\<close>

type_synonym ref = nat

record 'v memory =
  dict_objects :: "ref \<rightharpoonup> (string \<rightharpoonup> 'v)"
  class_attrs :: "string \<rightharpoonup> ref"
  instance_attrs :: "ref \<rightharpoonup> (string \<rightharpoonup> ref)"
  next_instance :: ref

definition class_body :: "'v memory" where
  "class_body =
     \<lparr>dict_objects = [0 \<mapsto> Map.empty],
      class_attrs = [''prompts'' \<mapsto> 0],
      instance_attrs = Map.empty,
      next_instance = 0\<rparr>"

definition PromptCache_new :: "'v memory \<Rightarrow> ref \<times> 'v memory" where
  "PromptCache_new m =
     (next_instance m,
      m\<lparr>instance_attrs := (instance_attrs m)(next_instance m \<mapsto> Map.empty),
        next_instance := Suc (next_instance m)\<rparr>)"

definition getattr :: "'v memory \<Rightarrow> ref \<Rightarrow> string \<Rightarrow> error + ref" where
  "getattr m self name =
     (case instance_attrs m self of
        None \<Rightarrow> Inl Dangling
      | Some own \<Rightarrow>
          (case own name of
             Some r \<Rightarrow> Inr r
           | None \<Rightarrow>
               (case class_attrs m name of
                  Some r \<Rightarrow> Inr r
                | None \<Rightarrow> Inl (AttributeError name))))"

definition setitem :: "'v memory \<Rightarrow> ref \<Rightarrow> string \<Rightarrow> 'v \<Rightarrow> error + 'v memory" where
  "setitem m self name val =
     (case getattr m self ''prompts'' of
        Inl e \<Rightarrow> Inl e
      | Inr r \<Rightarrow>
          (case dict_objects m r of
             None \<Rightarrow> Inl Dangling
           | Some d \<Rightarrow> Inr (m\<lparr>dict_objects := (dict_objects m)(r \<mapsto> d(name \<mapsto> val))\<rparr>)))"

definition getitem :: "'v memory \<Rightarrow> ref \<Rightarrow> string \<Rightarrow> error + 'v option" where
  "getitem m self name =
     (case getattr m self ''prompts'' of
        Inl e \<Rightarrow> Inl e
      | Inr r \<Rightarrow>
          (case dict_objects m r of
             None \<Rightarrow> Inl Dangling
           | Some d \<Rightarrow>
               if name \<in> dom d
               then (case d name of Some val \<Rightarrow> Inr (Some val) | None \<Rightarrow> Inl (KeyError name))
               else Inr None))"

text \<open>
  What a client does with the class: it creates instances and stores through them. A history is
  a list of such calls, run from the state the class statement leaves; \<open>stores k c\<close> says that
  the call \<open>c\<close> stores under the key \<open>k\<close>.
\<close>

datatype 'v call = New | SetItem ref string 'v

fun run :: "'v memory \<Rightarrow> 'v call list \<Rightarrow> error + 'v memory" where
  "run m [] = Inr m"
| "run m (New # cs) = run (snd (PromptCache_new m)) cs"
| "run m (SetItem self name val # cs) =
     (case setitem m self name val of Inl e \<Rightarrow> Inl e | Inr m' \<Rightarrow> run m' cs)"

fun stores :: "string \<Rightarrow> 'v call \<Rightarrow> bool" where
  "stores k New = False"
| "stores k (SetItem self name val) = (name = k)"

definition is_instance :: "'v memory \<Rightarrow> ref \<Rightarrow> bool" where
  "is_instance m c = (instance_attrs m c \<noteq> None)"

section \<open>PromptSettings\<close>

text \<open>
  The keyword arguments of \<^verbatim>\<open>PromptSettings(**prompt)\<close>: a dictionary from field names to
  loaded values.
\<close>

type_synonym raw_record = "string \<rightharpoonup> yaml"

record PromptSettings =
  target :: string
  positive :: "string option"
  unconditional :: string
  neutral :: "string option"
  action :: string
  guidance_scale :: real
  resolution :: int
  dynamic_resolution :: bool
  batch_size :: int

definition ACTION_TYPES :: "string list" where
  "ACTION_TYPES = [''erase'', ''enhance'']"

text \<open>
  The root validator, run by pydantic on the keyword arguments before any field is validated
  (\<^verbatim>\<open>pre=True\<close>). Each test is \<^verbatim>\<open>not in keys\<close>; the dictionary is updated in place, so the
  default of \<^verbatim>\<open>neutral\<close> reads \<^verbatim>\<open>unconditional\<close> after that key has been filled.
\<close>

definition fill_prompts :: "raw_record \<Rightarrow> error + raw_record" where
  "fill_prompts values =
     (if ''target'' \<notin> dom values then Inl (ValueError ''target must be specified'')
      else
        let values1 =
              (if ''positive'' \<notin> dom values
               then values(''positive'' := values ''target'') else values);
            values2 =
              (if ''unconditional'' \<notin> dom values1
               then values1(''unconditional'' \<mapsto> YStr '''') else values1);
            values3 =
              (if ''neutral'' \<notin> dom values2
               then values2(''neutral'' := values2 ''unconditional'') else values2)
        in Inr values3)"

text \<open>
  Field validation is pydantic's, not this module's. A value that already has the annotated
  type is kept as it is. What the library makes of any other value (a coercion or a rejection,
  which differs between its versions) is a parameter of the model: one function per annotated
  type, returning the message of the rejection or the coerced value. A field annotated
  \<^verbatim>\<open>str = None\<close> admits \<^verbatim>\<open>None\<close> in pydantic 1, hence the optional string. A
  \<^verbatim>\<open>Literal\<close> admits exactly its values and coerces nothing.
\<close>

record coercions =
  coerce_str :: "yaml \<Rightarrow> string + string"
  coerce_optional_str :: "yaml \<Rightarrow> string + string option"
  coerce_float :: "yaml \<Rightarrow> string + real"
  coerce_int :: "yaml \<Rightarrow> string + int"
  coerce_bool :: "yaml \<Rightarrow> string + bool"

definition str_validator :: "coercions \<Rightarrow> yaml \<Rightarrow> string + string" where
  "str_validator C v = (case v of YStr s \<Rightarrow> Inr s | _ \<Rightarrow> coerce_str C v)"

definition optional_str_validator :: "coercions \<Rightarrow> yaml \<Rightarrow> string + string option" where
  "optional_str_validator C v =
     (case v of YStr s \<Rightarrow> Inr (Some s) | _ \<Rightarrow> coerce_optional_str C v)"

text \<open>
  The numeric fields. The library converts with Python's \<^verbatim>\<open>float\<close> and \<^verbatim>\<open>int\<close>, which
  raise on \<^verbatim>\<open>None\<close>, on a list and on a dictionary, and on a string that denotes no number;
  the library then rejects the value. A string of ASCII characters without a digit denotes no
  integer, and denotes a float only when its letters spell \<^verbatim>\<open>inf\<close>, \<^verbatim>\<open>infinity\<close> or
  \<^verbatim>\<open>nan\<close> in any case. \<open>not_float\<close> and \<open>not_int\<close> are these values, which are not numeric;
  they are rejected whatever the coercions. A number of the other kind, a boolean and any other
  string are left to the coercions.
\<close>

definition lower :: "char \<Rightarrow> char" where
  "lower c =
     (case map_of (zip ''ABCDEFGHIJKLMNOPQRSTUVWXYZ'' ''abcdefghijklmnopqrstuvwxyz'') c of
        Some l \<Rightarrow> l
      | None \<Rightarrow> c)"

definition letters :: "string \<Rightarrow> string" where
  "letters s = filter (\<lambda>c. c \<in> set ''abcdefghijklmnopqrstuvwxyz'') (map lower s)"

definition digitless :: "string \<Rightarrow> bool" where
  "digitless s = list_all (\<lambda>c. \<not> digit7 c \<and> c \<notin> set ''0123456789'') s"

definition not_int :: "yaml \<Rightarrow> bool" where
  "not_int v =
     (case v of
        YNull \<Rightarrow> True
      | YSeq xs \<Rightarrow> True
      | YMap kvs \<Rightarrow> True
      | YStr s \<Rightarrow> digitless s
      | _ \<Rightarrow> False)"

definition not_float :: "yaml \<Rightarrow> bool" where
  "not_float v =
     (case v of
        YNull \<Rightarrow> True
      | YSeq xs \<Rightarrow> True
      | YMap kvs \<Rightarrow> True
      | YStr s \<Rightarrow> digitless s \<and> letters s \<notin> {''inf'', ''infinity'', ''nan''}
      | _ \<Rightarrow> False)"

definition float_validator :: "coercions \<Rightarrow> yaml \<Rightarrow> string + real" where
  "float_validator C v =
     (case v of
        YFloat x \<Rightarrow> Inr x
      | _ \<Rightarrow> if not_float v then Inl ''value is not a valid float'' else coerce_float C v)"

definition int_validator :: "coercions \<Rightarrow> yaml \<Rightarrow> string + int" where
  "int_validator C v =
     (case v of
        YInt n \<Rightarrow> Inr n
      | _ \<Rightarrow> if not_int v then Inl ''value is not a valid integer'' else coerce_int C v)"

definition bool_validator :: "coercions \<Rightarrow> yaml \<Rightarrow> string + bool" where
  "bool_validator C v = (case v of YBool b \<Rightarrow> Inr b | _ \<Rightarrow> coerce_bool C v)"

definition literal_validator :: "string list \<Rightarrow> yaml \<Rightarrow> string + string" where
  "literal_validator permitted v =
     (case v of
        YStr s \<Rightarrow> if s \<in> set permitted then Inr s else Inl ''unexpected value''
      | _ \<Rightarrow> Inl ''unexpected value'')"


text \<open>
  One field of the model: a key that is present is validated, a key that is absent takes the
  declared default (which is not validated), and an absent key with no default is an error.
\<close>

definition field_value ::
  "raw_record \<Rightarrow> string \<Rightarrow> 'a option \<Rightarrow> (yaml \<Rightarrow> string + 'a) \<Rightarrow> string + 'a" where
  "field_value values name default_value validator =
     (case values name of
        Some v \<Rightarrow> validator v
      | None \<Rightarrow> (case default_value of Some d \<Rightarrow> Inr d | None \<Rightarrow> Inl ''field required''))"

text \<open>
  Pydantic validates every field, in the order of declaration, and collects the errors of all of
  them; the object is built only when there is none.
\<close>

fun with_field ::
  "(string \<times> string) list + ('a \<Rightarrow> 'b) \<Rightarrow> string \<Rightarrow> string + 'a \<Rightarrow> (string \<times> string) list + 'b"
  where
  "with_field (Inr f) name (Inr v) = Inr (f v)"
| "with_field (Inr f) name (Inl msg) = Inl [(name, msg)]"
| "with_field (Inl errs) name (Inr v) = Inl errs"
| "with_field (Inl errs) name (Inl msg) = Inl (errs @ [(name, msg)])"

definition validate_fields :: "coercions \<Rightarrow> raw_record \<Rightarrow> (string \<times> string) list + PromptSettings"
  where
  "validate_fields C values =
     (let r0 = Inr (\<lambda>t p u n a g r d b.
                 \<lparr>target = t, positive = p, unconditional = u, neutral = n, action = a,
                  guidance_scale = g, resolution = r, dynamic_resolution = d, batch_size = b\<rparr>);
          r1 = with_field r0 ''target''
                 (field_value values ''target'' None (str_validator C));
          r2 = with_field r1 ''positive''
                 (field_value values ''positive'' (Some None) (optional_str_validator C));
          r3 = with_field r2 ''unconditional''
                 (field_value values ''unconditional'' (Some '''') (str_validator C));
          r4 = with_field r3 ''neutral''
                 (field_value values ''neutral'' (Some None) (optional_str_validator C));
          r5 = with_field r4 ''action''
                 (field_value values ''action'' (Some ''erase'') (literal_validator ACTION_TYPES));
          r6 = with_field r5 ''guidance_scale''
                 (field_value values ''guidance_scale'' (Some 1.0) (float_validator C));
          r7 = with_field r6 ''resolution''
                 (field_value values ''resolution'' (Some 512) (int_validator C));
          r8 = with_field r7 ''dynamic_resolution''
                 (field_value values ''dynamic_resolution'' (Some False) (bool_validator C))
      in with_field r8 ''batch_size''
           (field_value values ''batch_size'' (Some 1) (int_validator C)))"

text \<open>
  \<^verbatim>\<open>PromptSettings(**prompt)\<close>: the root validator first, whose \<^verbatim>\<open>ValueError\<close> pydantic
  reports as a validation error at \<^verbatim>\<open>__root__\<close>; then the fields.
\<close>

definition PromptSettings_init :: "coercions \<Rightarrow> raw_record \<Rightarrow> error + PromptSettings" where
  "PromptSettings_init C prompt =
     (case fill_prompts prompt of
        Inl (ValueError msg) \<Rightarrow> Inl (ValidationError [(''__root__'', msg)])
      | Inl e \<Rightarrow> Inl e
      | Inr values \<Rightarrow>
          (case validate_fields C values of
             Inl errs \<Rightarrow> Inl (ValidationError errs)
           | Inr settings \<Rightarrow> Inr settings))"

text \<open>
  A library that coerces nothing: every value that has not the annotated type is rejected. It
  serves to evaluate the model on concrete records.
\<close>

definition no_coercion :: coercions where
  "no_coercion =
     \<lparr>coerce_str = (\<lambda>v. Inl ''str type expected''),
      coerce_optional_str = (\<lambda>v. Inl ''str type expected''),
      coerce_float = (\<lambda>v. Inl ''value is not a valid float''),
      coerce_int = (\<lambda>v. Inl ''value is not a valid integer''),
      coerce_bool = (\<lambda>v. Inl ''value could not be parsed to a boolean'')\<rparr>"


section \<open>PromptPair\<close>

text \<open>
  The tensor arithmetic is torch's, not this module's: the three operators the class uses are a
  parameter of the model (\<open>'t\<close> the tensors, \<open>'g\<close> the type of the guidance scale). An exception
  raised inside an operator or inside the loss function leaves \<^verbatim>\<open>loss\<close> unchanged, so such an
  outcome is a value of \<open>'t\<close> or of \<open>'s\<close> like any other.
\<close>

record ('g, 't) arith =
  sub :: "'t \<Rightarrow> 't \<Rightarrow> 't"
  add :: "'t \<Rightarrow> 't \<Rightarrow> 't"
  mul :: "'g \<Rightarrow> 't \<Rightarrow> 't"

record ('g, 't, 's) PromptPair =
  loss_fn :: "'t \<Rightarrow> 't \<Rightarrow> 's"
  target :: 't
  positive :: 't
  unconditional :: 't
  neutral :: 't
  guidance_scale :: 'g
  resolution :: int
  dynamic_resolution :: bool
  batch_size :: int
  action :: string

text \<open>The methods \<^verbatim>\<open>_erase\<close> and \<^verbatim>\<open>_enhance\<close>.\<close>

definition erase ::
  "('g, 't) arith \<Rightarrow> ('g, 't, 's) PromptPair \<Rightarrow> 't \<Rightarrow> 't \<Rightarrow> 't \<Rightarrow> 't \<Rightarrow> 's" where
  "erase A self target_latents positive_latents unconditional_latents neutral_latents =
     loss_fn self target_latents
       (sub A neutral_latents
          (mul A (guidance_scale self) (sub A positive_latents unconditional_latents)))"

definition enhance ::
  "('g, 't) arith \<Rightarrow> ('g, 't, 's) PromptPair \<Rightarrow> 't \<Rightarrow> 't \<Rightarrow> 't \<Rightarrow> 't \<Rightarrow> 's" where
  "enhance A self target_latents positive_latents unconditional_latents neutral_latents =
     loss_fn self target_latents
       (add A neutral_latents
          (mul A (guidance_scale self) (sub A positive_latents unconditional_latents)))"

text \<open>
  \<^verbatim>\<open>loss(**kwargs)\<close> hands its keyword arguments on; they are the four latents.
\<close>

definition loss ::
  "('g, 't) arith \<Rightarrow> ('g, 't, 's) PromptPair \<Rightarrow> 't \<Rightarrow> 't \<Rightarrow> 't \<Rightarrow> 't \<Rightarrow> error + 's" where
  "loss A self target_latents positive_latents unconditional_latents neutral_latents =
     (if action self = ''erase''
      then Inr (erase A self target_latents positive_latents unconditional_latents
                  neutral_latents)
      else if action self = ''enhance''
      then Inr (enhance A self target_latents positive_latents unconditional_latents
                  neutral_latents)
      else Inl (ValueError ''action must be erase or enhance''))"

text \<open>
  Exact arithmetic on one-dimensional tensors of one length, and the absolute difference of
  two such tensors, to evaluate the loss on concrete latents.
\<close>

definition exact :: "(real, real list) arith" where
  "exact =
     \<lparr>sub = map2 (\<lambda>x y. x - y),
      add = map2 (\<lambda>x y. x + y),
      mul = (\<lambda>g. map (\<lambda>x. g * x))\<rparr>"

definition absolute_difference :: "real list \<Rightarrow> real list \<Rightarrow> real" where
  "absolute_difference a b = sum_list (map2 (\<lambda>x y. \<bar>x - y\<bar>) a b)"

section \<open>load_prompts_from_yaml\<close>

text \<open>
  The function from the loaded document on: a sequence of records. The list comprehension
  builds the settings in order, and the first exception leaves it.
\<close>

fun comprehension :: "coercions \<Rightarrow> raw_record list \<Rightarrow> error + PromptSettings list" where
  "comprehension C [] = Inr []"
| "comprehension C (prompt # prompts) =
     (case PromptSettings_init C prompt of
        Inl e \<Rightarrow> Inl e
      | Inr s \<Rightarrow>
          (case comprehension C prompts of
             Inl e \<Rightarrow> Inl e
           | Inr ss \<Rightarrow> Inr (s # ss)))"

definition load_prompts_from_yaml ::
  "coercions \<Rightarrow> raw_record list \<Rightarrow> error + PromptSettings list" where
  "load_prompts_from_yaml C prompts =
     (if length prompts = 0 then Inl (ValueError ''prompts file is empty'')
      else comprehension C prompts)"

section \<open>Predicates of the proofs\<close>

text \<open>
  \<open>shared\<close> is the invariant of the store: the class attribute refers to the dictionary the
  class body created, and no instance has an attribute \<^verbatim>\<open>prompts\<close> of its own. \<open>reports\<close>
  says that a validation has failed with an entry for the location \<open>name\<close>.
\<close>

definition shared :: "'v memory \<Rightarrow> bool" where
  "shared m \<longleftrightarrow>
     class_attrs m ''prompts'' = Some 0 \<and> dict_objects m 0 \<noteq> None \<and>
     (\<forall>c own. instance_attrs m c = Some own \<longrightarrow> own ''prompts'' = None)"


section \<open>The cache\<close>

text \<open>
  Every state that a history of calls reaches from the class body keeps the invariant, and in
  such a state both methods of any instance work on the dictionary at reference 0.
\<close>

lemma shared_class_body: "shared class_body"
  by (simp add: shared_def class_body_def)

lemma shared_new: "shared m \<Longrightarrow> shared (snd (PromptCache_new m))"
  by (auto simp: shared_def PromptCache_new_def)

lemma shared_getattr: "shared m \<Longrightarrow> is_instance m c \<Longrightarrow> getattr m c ''prompts'' = Inr 0"
  by (fastforce simp: shared_def is_instance_def getattr_def split: option.splits)

lemma shared_setitem:
  assumes "shared m" and "is_instance m c"
  shows "\<exists>d. dict_objects m 0 = Some d \<and>
           setitem m c k v = Inr (m\<lparr>dict_objects := (dict_objects m)(0 \<mapsto> d(k \<mapsto> v))\<rparr>)"
  using assms(1) shared_getattr [OF assms] by (auto simp: setitem_def shared_def)

lemma shared_getitem:
  assumes "shared m" and "is_instance m c" and "dict_objects m 0 = Some d"
  shows "getitem m c k = Inr (d k)"
  using assms(3) shared_getattr [OF assms(1,2)]
  by (cases "d k") (auto simp: getitem_def)

lemma setitem_frame:
  assumes "setitem m c k v = Inr m'"
  shows "class_attrs m' = class_attrs m" and "instance_attrs m' = instance_attrs m"
    and "\<exists>r d. dict_objects m r = Some d \<and> dict_objects m' = (dict_objects m)(r \<mapsto> d(k \<mapsto> v))"
  using assms by (fastforce simp: setitem_def split: sum.splits option.splits)+

lemma setitem_shared: "shared m \<Longrightarrow> setitem m c k v = Inr m' \<Longrightarrow> shared m'"
  using setitem_frame [of m c k v m'] by (auto simp: shared_def)

lemma run_shared: "shared m \<Longrightarrow> run m cs = Inr m' \<Longrightarrow> shared m'"
proof (induction m cs rule: run.induct)
  case (1 m)
  then show ?case by simp
next
  case (2 m cs)
  then show ?case by (simp add: shared_new)
next
  case (3 m self name val cs)
  then show ?case by (auto split: sum.splits dest: setitem_shared)
qed

lemma run_not_stored:
  "shared m \<Longrightarrow> run m cs = Inr m' \<Longrightarrow> \<forall>c\<in>set cs. \<not> stores k c \<Longrightarrow>
   dict_objects m 0 = Some d \<Longrightarrow> \<exists>d'. dict_objects m' 0 = Some d' \<and> d' k = d k"
proof (induction m cs arbitrary: d rule: run.induct)
  case (1 m)
  then show ?case by simp
next
  case (2 m cs)
  from 2(2) have s: "shared (snd (PromptCache_new m))" by (rule shared_new)
  from 2(5) have "dict_objects (snd (PromptCache_new m)) 0 = Some d"
    by (simp add: PromptCache_new_def)
  from 2(1) [OF s _ _ this] 2(3,4) show ?case by simp
next
  case (3 m self name val cs)
  from 3(3) obtain m1 where m1: "setitem m self name val = Inr m1" and r: "run m1 cs = Inr m'"
    by (auto split: sum.splits)
  from 3(4) have nk: "name \<noteq> k" and rest: "\<forall>c\<in>set cs. \<not> stores k c" by simp_all
  have s1: "shared m1" using 3(2) m1 by (rule setitem_shared)
  from setitem_frame(3) [OF m1]
  obtain r dr where dr: "dict_objects m r = Some dr"
    and upd: "dict_objects m1 = (dict_objects m)(r \<mapsto> dr(name \<mapsto> val))"
    by blast
  have "\<exists>d1. dict_objects m1 0 = Some d1 \<and> d1 k = d k"
    using dr upd 3(5) nk by (cases "r = 0") auto
  then obtain d1 where d1: "dict_objects m1 0 = Some d1" and eq: "d1 k = d k"
    by blast
  from 3(1) [OF m1 s1 r rest d1] eq show ?case by simp
qed

text \<open>
  C9. In any state reached by a history of calls, through any instance \<open>c\<close>: a lookup of a key
  that no call of the history has stored returns \<^verbatim>\<open>None\<close>, the absent marker, and raises
  nothing; after storing \<open>v\<close> under \<open>k\<close> the lookup of \<open>k\<close> returns \<open>v\<close>; after storing \<open>v2\<close>
  under \<open>k\<close> next, it returns \<open>v2\<close>. Neither call raises.
\<close>

theorem cache_contract:
  assumes "run class_body history = Inr m" and "is_instance m c"
  shows "((\<forall>call\<in>set history. \<not> stores k call) \<longrightarrow> getitem m c k = Inr None)
     \<and> (\<exists>m1. setitem m c k v = Inr m1 \<and> getitem m1 c k = Inr (Some v)
           \<and> (\<exists>m2. setitem m1 c k v2 = Inr m2 \<and> getitem m2 c k = Inr (Some v2)))"
proof -
  have s: "shared m" using shared_class_body assms(1) by (rule run_shared)
  have absent: "getitem m c k = Inr None" if "\<forall>call\<in>set history. \<not> stores k call"
  proof -
    have "dict_objects (class_body :: 'a memory) 0 = Some Map.empty"
      by (simp add: class_body_def)
    from run_not_stored [OF shared_class_body assms(1) that this]
    obtain d' where "dict_objects m 0 = Some d'" and "d' k = None" by auto
    with shared_getitem [OF s assms(2)] show ?thesis by simp
  qed
  from shared_setitem [OF s assms(2), of k v]
  obtain d where d: "dict_objects m 0 = Some d"
    and m1: "setitem m c k v = Inr (m\<lparr>dict_objects := (dict_objects m)(0 \<mapsto> d(k \<mapsto> v))\<rparr>)"
    by blast
  let ?m1 = "m\<lparr>dict_objects := (dict_objects m)(0 \<mapsto> d(k \<mapsto> v))\<rparr>"
  have s1: "shared ?m1" using s m1 by (rule setitem_shared)
  have i1: "is_instance ?m1 c" using assms(2) by (simp add: is_instance_def)
  have g1: "getitem ?m1 c k = Inr (Some v)"
    using shared_getitem [OF s1 i1, of "d(k \<mapsto> v)" k] by simp
  from shared_setitem [OF s1 i1, of k v2]
  have m2: "setitem ?m1 c k v2 =
      Inr (?m1\<lparr>dict_objects := (dict_objects ?m1)(0 \<mapsto> d(k \<mapsto> v2))\<rparr>)"
    by simp
  let ?m2 = "?m1\<lparr>dict_objects := (dict_objects ?m1)(0 \<mapsto> d(k \<mapsto> v2))\<rparr>"
  have s2: "shared ?m2" using s1 m2 by (rule setitem_shared)
  have i2: "is_instance ?m2 c" using assms(2) by (simp add: is_instance_def)
  have g2: "getitem ?m2 c k = Inr (Some v2)"
    using shared_getitem [OF s2 i2, of "d(k \<mapsto> v2)" k] by simp
  from absent m1 g1 m2 g2 show ?thesis by simp
qed

text \<open>
  A fresh instance and the key \<^verbatim>\<open>van gogh\<close>: absent, then 7, then 8.
\<close>

theorem cache_contract_witness:
  "getitem (snd (PromptCache_new (class_body :: nat memory))) 0 ''van gogh'' = Inr None
   \<and> (\<exists>m1. setitem (snd (PromptCache_new (class_body :: nat memory))) 0 ''van gogh'' 7 = Inr m1
         \<and> getitem m1 0 ''van gogh'' = Inr (Some 7)
         \<and> (\<exists>m2. setitem m1 0 ''van gogh'' 8 = Inr m2 \<and> getitem m2 0 ''van gogh'' = Inr (Some 8)))"
proof -
  let ?m = "snd (PromptCache_new (class_body :: nat memory))"
  have r: "run class_body [New] = Inr ?m" by simp
  have i0: "is_instance ?m 0"
    by (simp add: is_instance_def PromptCache_new_def class_body_def)
  from cache_contract [OF r i0, of "''van gogh''" 7 8]
  show ?thesis by simp
qed

text \<open>
  C10. All instances share one mapping. In any state reached by a history of calls, two
  distinct instances \<open>c1\<close> and \<open>c2\<close> find the same dictionary object under \<^verbatim>\<open>self.prompts\<close>,
  and what is stored under \<open>k\<close> through \<open>c1\<close> is what a lookup of \<open>k\<close> through \<open>c2\<close> returns:
  the store belongs to the class, not to the instance.
\<close>

theorem instances_share_one_mapping:
  assumes "run class_body history = Inr m"
    and "is_instance m c1" and "is_instance m c2" and "c1 \<noteq> c2"
  shows "getattr m c1 ''prompts'' = getattr m c2 ''prompts''
     \<and> (\<exists>m'. setitem m c1 k v = Inr m' \<and> getitem m' c2 k = Inr (Some v))"
proof -
  have s: "shared m" using shared_class_body assms(1) by (rule run_shared)
  from shared_setitem [OF s assms(2), of k v]
  obtain d where d: "dict_objects m 0 = Some d"
    and m1: "setitem m c1 k v = Inr (m\<lparr>dict_objects := (dict_objects m)(0 \<mapsto> d(k \<mapsto> v))\<rparr>)"
    by blast
  let ?m1 = "m\<lparr>dict_objects := (dict_objects m)(0 \<mapsto> d(k \<mapsto> v))\<rparr>"
  have s1: "shared ?m1" using s m1 by (rule setitem_shared)
  have i1: "is_instance ?m1 c2" using assms(3) by (simp add: is_instance_def)
  have g1: "getitem ?m1 c2 k = Inr (Some v)"
    using shared_getitem [OF s1 i1, of "d(k \<mapsto> v)" k] by simp
  from m1 g1 shared_getattr [OF s assms(2)] shared_getattr [OF s assms(3)]
  show ?thesis by simp
qed

text \<open>
  Two instances, created one after the other: a value stored through the first is read
  through the second.
\<close>

theorem instances_share_one_mapping_witness:
  "\<exists>m'. setitem (snd (PromptCache_new (snd (PromptCache_new (class_body :: nat memory))))) 0
           ''van gogh'' 7 = Inr m'
         \<and> getitem m' (Suc 0) ''van gogh'' = Inr (Some 7)"
proof -
  let ?m = "snd (PromptCache_new (snd (PromptCache_new (class_body :: nat memory))))"
  have r: "run class_body [New, New] = Inr ?m" by simp
  have i0: "is_instance ?m 0" and i1: "is_instance ?m (Suc 0)"
    by (simp_all add: is_instance_def PromptCache_new_def class_body_def)
  have ne: "(0::nat) \<noteq> Suc 0" by simp
  from instances_share_one_mapping [OF r i0 i1 ne, of "''van gogh''" 7]
  show ?thesis by simp
qed

section \<open>The fields of a record\<close>

lemma with_field_Inr:
  "with_field acc name r = Inr y \<longleftrightarrow> (\<exists>f v. acc = Inr f \<and> r = Inr v \<and> y = f v)"
  by (cases acc; cases r) auto

lemma validate_fields_Inr:
  assumes "validate_fields C vals = Inr s"
  shows "field_value vals ''target'' None (str_validator C) = Inr (PromptSettings.target s)"
    and "field_value vals ''positive'' (Some None) (optional_str_validator C) =
           Inr (PromptSettings.positive s)"
    and "field_value vals ''unconditional'' (Some '''') (str_validator C) =
           Inr (PromptSettings.unconditional s)"
    and "field_value vals ''neutral'' (Some None) (optional_str_validator C) =
           Inr (PromptSettings.neutral s)"
    and "field_value vals ''action'' (Some ''erase'') (literal_validator ACTION_TYPES) =
           Inr (PromptSettings.action s)"
    and "field_value vals ''guidance_scale'' (Some 1.0) (float_validator C) =
           Inr (PromptSettings.guidance_scale s)"
    and "field_value vals ''resolution'' (Some 512) (int_validator C) =
           Inr (PromptSettings.resolution s)"
    and "field_value vals ''dynamic_resolution'' (Some False) (bool_validator C) =
           Inr (PromptSettings.dynamic_resolution s)"
    and "field_value vals ''batch_size'' (Some 1) (int_validator C) =
           Inr (PromptSettings.batch_size s)"
  using assms unfolding validate_fields_def Let_def with_field_Inr by auto




lemma fill_prompts_keeps:
  "fill_prompts prompt = Inr vals \<Longrightarrow> prompt k = Some v \<Longrightarrow> vals k = Some v"
  by (auto simp: fill_prompts_def Let_def split: if_splits)

lemma fill_prompts_target:
  "''target'' \<in> dom prompt \<Longrightarrow> \<exists>vals. fill_prompts prompt = Inr vals"
  by (simp add: fill_prompts_def Let_def)

lemma fill_prompts_neutral:
  "fill_prompts prompt = Inr vals \<Longrightarrow> ''neutral'' \<notin> dom prompt \<Longrightarrow>
   prompt ''unconditional'' = Some v \<Longrightarrow>
   vals ''neutral'' = Some v \<and> vals ''unconditional'' = Some v"
  by (auto simp: fill_prompts_def Let_def split: if_splits)

lemma init_Inr:
  "PromptSettings_init C prompt = Inr s \<longleftrightarrow>
     (\<exists>vals. fill_prompts prompt = Inr vals \<and> validate_fields C vals = Inr s)"
  by (auto simp: PromptSettings_init_def split: sum.splits error.splits)

lemma init_no_target:
  "''target'' \<notin> dom prompt \<Longrightarrow>
   PromptSettings_init C prompt =
     Inl (ValidationError [(''__root__'', ''target must be specified'')])"
  by (simp add: PromptSettings_init_def fill_prompts_def)


lemma init_defaults:
  "PromptSettings_init C [''target'' \<mapsto> YStr t] =
     Inr \<lparr>PromptSettings.target = t, positive = Some t, unconditional = '''',
          neutral = Some '''', action = ''erase'', guidance_scale = 1.0, resolution = 512,
          dynamic_resolution = False, batch_size = 1\<rparr>"
  by (simp add: PromptSettings_init_def fill_prompts_def validate_fields_def field_value_def
      str_validator_def optional_str_validator_def Let_def)

lemma init_invert:
  "PromptSettings_init C [''target'' \<mapsto> YStr t, ''action'' \<mapsto> YStr ''invert''] =
     Inl (ValidationError [(''action'', ''unexpected value'')])"
  by (simp add: PromptSettings_init_def fill_prompts_def validate_fields_def field_value_def
      str_validator_def optional_str_validator_def literal_validator_def ACTION_TYPES_def
      Let_def)

text \<open>
  C2. A record that supplies only \<^verbatim>\<open>target\<close>, a string \<open>t\<close>, resolves, alone or as the only
  record of a document, to the settings with \<^verbatim>\<open>positive\<close> equal to \<open>t\<close>, empty
  \<^verbatim>\<open>unconditional\<close> and \<^verbatim>\<open>neutral\<close>, action \<^verbatim>\<open>erase\<close>, guidance scale 1.0, resolution 512,
  no dynamic resolution and batch size 1, whatever the library coerces.
\<close>

theorem only_target_defaults:
  "PromptSettings_init C [''target'' \<mapsto> YStr t] =
     Inr \<lparr>PromptSettings.target = t, positive = Some t, unconditional = '''',
          neutral = Some '''', action = ''erase'', guidance_scale = 1.0, resolution = 512,
          dynamic_resolution = False, batch_size = 1\<rparr>
   \<and> load_prompts_from_yaml C [[''target'' \<mapsto> YStr t]] =
     Inr [\<lparr>PromptSettings.target = t, positive = Some t, unconditional = '''',
          neutral = Some '''', action = ''erase'', guidance_scale = 1.0, resolution = 512,
          dynamic_resolution = False, batch_size = 1\<rparr>]"
  by (simp add: load_prompts_from_yaml_def init_defaults)

text \<open>
  C3. A record that supplies \<^verbatim>\<open>target\<close> and \<^verbatim>\<open>unconditional\<close> and omits \<^verbatim>\<open>neutral\<close>: the
  root validator stores the supplied value of \<^verbatim>\<open>unconditional\<close> under \<^verbatim>\<open>neutral\<close>, and
  whenever the record resolves, the resolved \<^verbatim>\<open>neutral\<close> is the validated supplied value; for
  a supplied string \<open>u\<close> it is \<open>u\<close>, and not the empty default.
\<close>

theorem neutral_copies_supplied_unconditional:
  assumes "''target'' \<in> dom prompt"
    and "prompt ''unconditional'' = Some v"
    and "''neutral'' \<notin> dom prompt"
  shows "(\<exists>vals. fill_prompts prompt = Inr vals \<and> vals ''neutral'' = Some v)
     \<and> (\<forall>s. PromptSettings_init C prompt = Inr s \<longrightarrow>
           optional_str_validator C v = Inr (PromptSettings.neutral s)
           \<and> (\<forall>u. v = YStr u \<longrightarrow>
                 PromptSettings.neutral s = Some u \<and> PromptSettings.unconditional s = u))"
proof -
  from assms(1) obtain vals where f: "fill_prompts prompt = Inr vals"
    using fill_prompts_target by blast
  from fill_prompts_neutral [OF f assms(3) assms(2)]
  have n: "vals ''neutral'' = Some v" and u: "vals ''unconditional'' = Some v"
    by simp_all
  have "optional_str_validator C v = Inr (PromptSettings.neutral s)
      \<and> (\<forall>u. v = YStr u \<longrightarrow>
            PromptSettings.neutral s = Some u \<and> PromptSettings.unconditional s = u)"
    if "PromptSettings_init C prompt = Inr s" for s
  proof -
    from that f have vf: "validate_fields C vals = Inr s"
      by (auto simp: init_Inr)
    from validate_fields_Inr(4) [OF vf] n
    have a: "optional_str_validator C v = Inr (PromptSettings.neutral s)"
      by (simp add: field_value_def)
    from validate_fields_Inr(3) [OF vf] u
    have b: "str_validator C v = Inr (PromptSettings.unconditional s)"
      by (simp add: field_value_def)
    from a b show ?thesis
      by (auto simp: optional_str_validator_def str_validator_def)
  qed
  with f n show ?thesis by blast
qed

text \<open>
  The record \<^verbatim>\<open>{target: "A", unconditional: "U"}\<close>: it resolves, and its \<^verbatim>\<open>neutral\<close> is
  \<^verbatim>\<open>"U"\<close>.
\<close>

theorem neutral_copies_supplied_unconditional_witness:
  "PromptSettings_init no_coercion
     [''target'' \<mapsto> YStr ''A'', ''unconditional'' \<mapsto> YStr ''U''] =
     Inr \<lparr>PromptSettings.target = ''A'', positive = Some ''A'', unconditional = ''U'',
          neutral = Some ''U'', action = ''erase'', guidance_scale = 1.0, resolution = 512,
          dynamic_resolution = False, batch_size = 1\<rparr>
   \<and> PromptSettings.neutral
        \<lparr>PromptSettings.target = ''A'', positive = Some ''A'', unconditional = ''U'',
         neutral = Some ''U'', action = ''erase'', guidance_scale = 1.0, resolution = 512,
         dynamic_resolution = False, batch_size = 1\<rparr> = Some ''U''"
proof -
  let ?prompt = "[''target'' \<mapsto> YStr ''A'', ''unconditional'' \<mapsto> YStr ''U'']"
  have r: "PromptSettings_init no_coercion ?prompt =
     Inr \<lparr>PromptSettings.target = ''A'', positive = Some ''A'', unconditional = ''U'',
          neutral = Some ''U'', action = ''erase'', guidance_scale = 1.0, resolution = 512,
          dynamic_resolution = False, batch_size = 1\<rparr>"
    by (simp add: PromptSettings_init_def fill_prompts_def validate_fields_def field_value_def
        str_validator_def optional_str_validator_def Let_def)
  have t: "''target'' \<in> dom ?prompt" by simp
  have u: "?prompt ''unconditional'' = Some (YStr ''U'')" by simp
  have n: "''neutral'' \<notin> dom ?prompt" by simp
  from neutral_copies_supplied_unconditional [OF t u n, of no_coercion] r show ?thesis
    by simp
qed

text \<open>
  C5. Defaults are decided by the presence of the key. In a record that supplies \<^verbatim>\<open>target\<close>,
  the root validator leaves every supplied value where it is, whatever the value; and whenever
  the record resolves, each field whose key was supplied holds the validated supplied value and
  not a default. A supplied value of the annotated type is the resolved value itself: a string
  for \<^verbatim>\<open>positive\<close>, \<^verbatim>\<open>unconditional\<close> and \<^verbatim>\<open>neutral\<close>, a float for \<^verbatim>\<open>guidance_scale\<close>, an
  integer for \<^verbatim>\<open>resolution\<close> and \<^verbatim>\<open>batch_size\<close>, a boolean for \<^verbatim>\<open>dynamic_resolution\<close>, one
  of the two literals for \<^verbatim>\<open>action\<close>, also when it is empty, zero or false. In particular a
  supplied \<^verbatim>\<open>positive: ""\<close> resolves to the empty string and not to \<^verbatim>\<open>target\<close>.
\<close>

theorem supplied_values_are_kept:
  assumes "''target'' \<in> dom prompt"
  shows "(\<forall>k v. prompt k = Some v \<longrightarrow>
            (\<exists>vals. fill_prompts prompt = Inr vals \<and> vals k = Some v))
     \<and> (\<forall>s. PromptSettings_init C prompt = Inr s \<longrightarrow>
           (prompt ''positive'' = Some (YStr '''') \<longrightarrow> PromptSettings.positive s = Some '''')
         \<and> (\<forall>v. prompt ''positive'' = Some v \<longrightarrow>
               optional_str_validator C v = Inr (PromptSettings.positive s))
         \<and> (\<forall>v. prompt ''unconditional'' = Some v \<longrightarrow>
               str_validator C v = Inr (PromptSettings.unconditional s))
         \<and> (\<forall>v. prompt ''neutral'' = Some v \<longrightarrow>
               optional_str_validator C v = Inr (PromptSettings.neutral s))
         \<and> (\<forall>v. prompt ''action'' = Some v \<longrightarrow> v = YStr (PromptSettings.action s))
         \<and> (\<forall>v. prompt ''guidance_scale'' = Some v \<longrightarrow>
               float_validator C v = Inr (PromptSettings.guidance_scale s))
         \<and> (\<forall>v. prompt ''resolution'' = Some v \<longrightarrow>
               int_validator C v = Inr (PromptSettings.resolution s))
         \<and> (\<forall>v. prompt ''dynamic_resolution'' = Some v \<longrightarrow>
               bool_validator C v = Inr (PromptSettings.dynamic_resolution s))
         \<and> (\<forall>v. prompt ''batch_size'' = Some v \<longrightarrow>
               int_validator C v = Inr (PromptSettings.batch_size s))
         \<and> (\<forall>p. prompt ''positive'' = Some (YStr p) \<longrightarrow> PromptSettings.positive s = Some p)
         \<and> (\<forall>u. prompt ''unconditional'' = Some (YStr u) \<longrightarrow>
               PromptSettings.unconditional s = u)
         \<and> (\<forall>n. prompt ''neutral'' = Some (YStr n) \<longrightarrow> PromptSettings.neutral s = Some n)
         \<and> (\<forall>x. prompt ''guidance_scale'' = Some (YFloat x) \<longrightarrow>
               PromptSettings.guidance_scale s = x)
         \<and> (\<forall>n. prompt ''resolution'' = Some (YInt n) \<longrightarrow> PromptSettings.resolution s = n)
         \<and> (\<forall>b. prompt ''dynamic_resolution'' = Some (YBool b) \<longrightarrow>
               PromptSettings.dynamic_resolution s = b)
         \<and> (\<forall>n. prompt ''batch_size'' = Some (YInt n) \<longrightarrow> PromptSettings.batch_size s = n))"
proof -
  from assms obtain vals where f: "fill_prompts prompt = Inr vals"
    using fill_prompts_target by blast
  note keep = fill_prompts_keeps [OF f]
  have raw: "\<exists>vals. fill_prompts prompt = Inr vals \<and> vals k = Some v"
    if "prompt k = Some v" for k v
    using f keep [OF that] by blast
  have resolved:
    "(prompt ''positive'' = Some (YStr '''') \<longrightarrow> PromptSettings.positive s = Some '''')
     \<and> (\<forall>v. prompt ''positive'' = Some v \<longrightarrow>
           optional_str_validator C v = Inr (PromptSettings.positive s))
     \<and> (\<forall>v. prompt ''unconditional'' = Some v \<longrightarrow>
           str_validator C v = Inr (PromptSettings.unconditional s))
     \<and> (\<forall>v. prompt ''neutral'' = Some v \<longrightarrow>
           optional_str_validator C v = Inr (PromptSettings.neutral s))
     \<and> (\<forall>v. prompt ''action'' = Some v \<longrightarrow> v = YStr (PromptSettings.action s))
     \<and> (\<forall>v. prompt ''guidance_scale'' = Some v \<longrightarrow>
           float_validator C v = Inr (PromptSettings.guidance_scale s))
     \<and> (\<forall>v. prompt ''resolution'' = Some v \<longrightarrow>
           int_validator C v = Inr (PromptSettings.resolution s))
     \<and> (\<forall>v. prompt ''dynamic_resolution'' = Some v \<longrightarrow>
           bool_validator C v = Inr (PromptSettings.dynamic_resolution s))
     \<and> (\<forall>v. prompt ''batch_size'' = Some v \<longrightarrow>
           int_validator C v = Inr (PromptSettings.batch_size s))
     \<and> (\<forall>p. prompt ''positive'' = Some (YStr p) \<longrightarrow> PromptSettings.positive s = Some p)
     \<and> (\<forall>u. prompt ''unconditional'' = Some (YStr u) \<longrightarrow>
           PromptSettings.unconditional s = u)
     \<and> (\<forall>n. prompt ''neutral'' = Some (YStr n) \<longrightarrow> PromptSettings.neutral s = Some n)
     \<and> (\<forall>x. prompt ''guidance_scale'' = Some (YFloat x) \<longrightarrow>
           PromptSettings.guidance_scale s = x)
     \<and> (\<forall>n. prompt ''resolution'' = Some (YInt n) \<longrightarrow> PromptSettings.resolution s = n)
     \<and> (\<forall>b. prompt ''dynamic_resolution'' = Some (YBool b) \<longrightarrow>
           PromptSettings.dynamic_resolution s = b)
     \<and> (\<forall>n. prompt ''batch_size'' = Some (YInt n) \<longrightarrow> PromptSettings.batch_size s = n)"
    if "PromptSettings_init C prompt = Inr s" for s
  proof -
    from that f have vf: "validate_fields C vals = Inr s"
      by (auto simp: init_Inr)
    note fields = validate_fields_Inr [OF vf]
    have p: "optional_str_validator C v = Inr (PromptSettings.positive s)"
      if "prompt ''positive'' = Some v" for v
      using fields(2) keep [OF that] by (simp add: field_value_def)
    have p0: "PromptSettings.positive s = Some ''''"
      if "prompt ''positive'' = Some (YStr '''')"
      using p [OF that] by (simp add: optional_str_validator_def)
    have u: "str_validator C v = Inr (PromptSettings.unconditional s)"
      if "prompt ''unconditional'' = Some v" for v
      using fields(3) keep [OF that] by (simp add: field_value_def)
    have n: "optional_str_validator C v = Inr (PromptSettings.neutral s)"
      if "prompt ''neutral'' = Some v" for v
      using fields(4) keep [OF that] by (simp add: field_value_def)
    have a: "v = YStr (PromptSettings.action s)"
      if "prompt ''action'' = Some v" for v
      using fields(5) keep [OF that]
      by (auto simp: field_value_def literal_validator_def split: yaml.splits if_splits)
    have g: "float_validator C v = Inr (PromptSettings.guidance_scale s)"
      if "prompt ''guidance_scale'' = Some v" for v
      using fields(6) keep [OF that] by (simp add: field_value_def)
    have r: "int_validator C v = Inr (PromptSettings.resolution s)"
      if "prompt ''resolution'' = Some v" for v
      using fields(7) keep [OF that] by (simp add: field_value_def)
    have d: "bool_validator C v = Inr (PromptSettings.dynamic_resolution s)"
      if "prompt ''dynamic_resolution'' = Some v" for v
      using fields(8) keep [OF that] by (simp add: field_value_def)
    have b: "int_validator C v = Inr (PromptSettings.batch_size s)"
      if "prompt ''batch_size'' = Some v" for v
      using fields(9) keep [OF that] by (simp add: field_value_def)
    have tp: "PromptSettings.positive s = Some q"
      if "prompt ''positive'' = Some (YStr q)" for q
      using p [OF that] by (simp add: optional_str_validator_def)
    have tu: "PromptSettings.unconditional s = q"
      if "prompt ''unconditional'' = Some (YStr q)" for q
      using u [OF that] by (simp add: str_validator_def)
    have tn: "PromptSettings.neutral s = Some q"
      if "prompt ''neutral'' = Some (YStr q)" for q
      using n [OF that] by (simp add: optional_str_validator_def)
    have tg: "PromptSettings.guidance_scale s = x"
      if "prompt ''guidance_scale'' = Some (YFloat x)" for x
      using g [OF that] by (simp add: float_validator_def)
    have tr: "PromptSettings.resolution s = k"
      if "prompt ''resolution'' = Some (YInt k)" for k
      using r [OF that] by (simp add: int_validator_def)
    have td: "PromptSettings.dynamic_resolution s = q"
      if "prompt ''dynamic_resolution'' = Some (YBool q)" for q
      using d [OF that] by (simp add: bool_validator_def)
    have tb: "PromptSettings.batch_size s = k"
      if "prompt ''batch_size'' = Some (YInt k)" for k
      using b [OF that] by (simp add: int_validator_def)
    have old: "(prompt ''positive'' = Some (YStr '''') \<longrightarrow> PromptSettings.positive s = Some '''')
     \<and> (\<forall>v. prompt ''positive'' = Some v \<longrightarrow>
           optional_str_validator C v = Inr (PromptSettings.positive s))
     \<and> (\<forall>v. prompt ''unconditional'' = Some v \<longrightarrow>
           str_validator C v = Inr (PromptSettings.unconditional s))
     \<and> (\<forall>v. prompt ''neutral'' = Some v \<longrightarrow>
           optional_str_validator C v = Inr (PromptSettings.neutral s))
     \<and> (\<forall>v. prompt ''action'' = Some v \<longrightarrow> v = YStr (PromptSettings.action s))"
      using p0 p u n a by blast
    have numeric: "(\<forall>v. prompt ''guidance_scale'' = Some v \<longrightarrow>
           float_validator C v = Inr (PromptSettings.guidance_scale s))
     \<and> (\<forall>v. prompt ''resolution'' = Some v \<longrightarrow>
           int_validator C v = Inr (PromptSettings.resolution s))
     \<and> (\<forall>v. prompt ''dynamic_resolution'' = Some v \<longrightarrow>
           bool_validator C v = Inr (PromptSettings.dynamic_resolution s))
     \<and> (\<forall>v. prompt ''batch_size'' = Some v \<longrightarrow>
           int_validator C v = Inr (PromptSettings.batch_size s))"
      using g r d b by blast
    have typed: "(\<forall>p. prompt ''positive'' = Some (YStr p) \<longrightarrow> PromptSettings.positive s = Some p)
     \<and> (\<forall>u. prompt ''unconditional'' = Some (YStr u) \<longrightarrow>
           PromptSettings.unconditional s = u)
     \<and> (\<forall>n. prompt ''neutral'' = Some (YStr n) \<longrightarrow> PromptSettings.neutral s = Some n)
     \<and> (\<forall>x. prompt ''guidance_scale'' = Some (YFloat x) \<longrightarrow>
           PromptSettings.guidance_scale s = x)
     \<and> (\<forall>n. prompt ''resolution'' = Some (YInt n) \<longrightarrow> PromptSettings.resolution s = n)
     \<and> (\<forall>b. prompt ''dynamic_resolution'' = Some (YBool b) \<longrightarrow>
           PromptSettings.dynamic_resolution s = b)
     \<and> (\<forall>n. prompt ''batch_size'' = Some (YInt n) \<longrightarrow> PromptSettings.batch_size s = n)"
      using tp tu tn tg tr td tb by blast
    from old numeric typed show ?thesis by simp
  qed
  from raw resolved show ?thesis by blast
qed

text \<open>
  A record whose supplied values are all falsy in Python: the empty string, zero and
  \<^verbatim>\<open>False\<close>. It resolves, and every one of them is kept.
\<close>

theorem supplied_values_are_kept_witness:
  "PromptSettings_init no_coercion
     [''target'' \<mapsto> YStr ''A'', ''positive'' \<mapsto> YStr '''', ''guidance_scale'' \<mapsto> YFloat 0,
      ''resolution'' \<mapsto> YInt 0, ''dynamic_resolution'' \<mapsto> YBool False,
      ''batch_size'' \<mapsto> YInt 0] =
     Inr \<lparr>PromptSettings.target = ''A'', positive = Some '''', unconditional = '''',
          neutral = Some '''', action = ''erase'', guidance_scale = 0, resolution = 0,
          dynamic_resolution = False, batch_size = 0\<rparr>
   \<and> PromptSettings.positive
        \<lparr>PromptSettings.target = ''A'', positive = Some '''', unconditional = '''',
         neutral = Some '''', action = ''erase'', guidance_scale = 0, resolution = 0,
         dynamic_resolution = False, batch_size = 0\<rparr> = Some ''''
   \<and> PromptSettings.resolution
        \<lparr>PromptSettings.target = ''A'', positive = Some '''', unconditional = '''',
         neutral = Some '''', action = ''erase'', guidance_scale = 0, resolution = 0,
         dynamic_resolution = False, batch_size = 0\<rparr> = 0"
proof -
  let ?prompt =
    "[''target'' \<mapsto> YStr ''A'', ''positive'' \<mapsto> YStr '''', ''guidance_scale'' \<mapsto> YFloat 0,
      ''resolution'' \<mapsto> YInt 0, ''dynamic_resolution'' \<mapsto> YBool False,
      ''batch_size'' \<mapsto> YInt 0]"
  have r: "PromptSettings_init no_coercion ?prompt =
     Inr \<lparr>PromptSettings.target = ''A'', positive = Some '''', unconditional = '''',
          neutral = Some '''', action = ''erase'', guidance_scale = 0, resolution = 0,
          dynamic_resolution = False, batch_size = 0\<rparr>"
    by (simp add: PromptSettings_init_def fill_prompts_def validate_fields_def field_value_def
        str_validator_def optional_str_validator_def float_validator_def int_validator_def
        bool_validator_def Let_def)
  have t: "''target'' \<in> dom ?prompt" by simp
  have p: "?prompt ''positive'' = Some (YStr '''')" by simp
  have q: "?prompt ''resolution'' = Some (YInt 0)" by simp
  from supplied_values_are_kept [OF t, of no_coercion] r p q show ?thesis
    by simp
qed

section \<open>The loader\<close>

text \<open>
  The comprehension stops at the first record that raises, with the error of that record; it
  returns a list only when every record resolves.
\<close>

lemma comprehension_first_failure:
  "\<forall>p\<in>set before. \<exists>s. PromptSettings_init C p = Inr s \<Longrightarrow>
   PromptSettings_init C prompt = Inl e \<Longrightarrow>
   comprehension C (before @ prompt # rest) = Inl e"
  by (induction before) auto

lemma load_first_failure:
  "\<forall>p\<in>set before. \<exists>s. PromptSettings_init C p = Inr s \<Longrightarrow>
   PromptSettings_init C prompt = Inl e \<Longrightarrow>
   load_prompts_from_yaml C (before @ prompt # rest) = Inl e"
  by (simp add: load_prompts_from_yaml_def comprehension_first_failure)

lemma comprehension_Inr_all:
  "comprehension C prompts = Inr ss \<Longrightarrow>
   \<forall>p\<in>set prompts. \<exists>s. PromptSettings_init C p = Inr s"
  by (induction prompts arbitrary: ss) (auto split: sum.splits)

lemma load_Inr_all:
  "load_prompts_from_yaml C prompts = Inr ss \<Longrightarrow>
   \<forall>p\<in>set prompts. \<exists>s. PromptSettings_init C p = Inr s"
  by (auto simp: load_prompts_from_yaml_def dest: comprehension_Inr_all split: if_splits)

text \<open>
  C8. Loading an empty sequence of records raises the \<^verbatim>\<open>ValueError\<close> "prompts file is
  empty" (the empty-configuration error); it does not return the empty list.
\<close>

theorem load_empty_raises:
  "load_prompts_from_yaml C [] = Inl (ValueError ''prompts file is empty'')"
  by (simp add: load_prompts_from_yaml_def)

text \<open>
  C7, as the code has it. A sequence in which some record lacks \<^verbatim>\<open>target\<close> never yields a
  list: loading raises, and nothing partial is returned. The error is the one of the first
  record that fails: when every record before a record without \<^verbatim>\<open>target\<close> resolves, it is the
  validation error that wraps "target must be specified".
\<close>

theorem missing_target_aborts:
  "((\<exists>p\<in>set prompts. ''target'' \<notin> dom p) \<longrightarrow>
      (\<exists>e. load_prompts_from_yaml C prompts = Inl e))
   \<and> ((\<forall>p\<in>set before. \<exists>s. PromptSettings_init C p = Inr s) \<and> ''target'' \<notin> dom prompt \<longrightarrow>
      load_prompts_from_yaml C (before @ prompt # rest) =
        Inl (ValidationError [(''__root__'', ''target must be specified'')]))"
proof (intro conjI impI)
  assume "\<exists>p\<in>set prompts. ''target'' \<notin> dom p"
  then obtain p where p: "p \<in> set prompts" "''target'' \<notin> dom p"
    by blast
  show "\<exists>e. load_prompts_from_yaml C prompts = Inl e"
  proof (cases "load_prompts_from_yaml C prompts")
    case (Inl e)
    then show ?thesis by blast
  next
    case (Inr ss)
    with p(1) obtain s where "PromptSettings_init C p = Inr s"
      using load_Inr_all by blast
    with init_no_target [OF p(2), of C] show ?thesis by simp
  qed
next
  assume "(\<forall>p\<in>set before. \<exists>s. PromptSettings_init C p = Inr s) \<and> ''target'' \<notin> dom prompt"
  then show "load_prompts_from_yaml C (before @ prompt # rest) =
        Inl (ValidationError [(''__root__'', ''target must be specified'')])"
    by (simp add: load_first_failure init_no_target)
qed

text \<open>
  A valid record followed by the empty record: the missing \<^verbatim>\<open>target\<close> of the second is
  reported.
\<close>

theorem missing_target_aborts_witness:
  "load_prompts_from_yaml no_coercion [[''target'' \<mapsto> YStr ''a''], Map.empty] =
     Inl (ValidationError [(''__root__'', ''target must be specified'')])"
proof -
  have b: "\<forall>p\<in>set [[''target'' \<mapsto> YStr ''a'']]. \<exists>s. PromptSettings_init no_coercion p = Inr s"
    by (simp add: init_defaults)
  have t: "''target'' \<notin> dom (Map.empty :: raw_record)"
    by simp
  from missing_target_aborts [of "[[''target'' \<mapsto> YStr ''a''], Map.empty]" no_coercion
      "[[''target'' \<mapsto> YStr ''a'']]" Map.empty "[]"] b t
  show ?thesis by simp
qed

text \<open>
  The claim as it was stated fails where an earlier record is rejected for another reason: the
  second record lacks \<^verbatim>\<open>target\<close>, and the error raised is the one of the first record's
  \<^verbatim>\<open>action\<close>, not the missing-target error.
\<close>

theorem missing_target_not_always_reported:
  "load_prompts_from_yaml no_coercion
     [[''target'' \<mapsto> YStr ''a'', ''action'' \<mapsto> YStr ''invert''], Map.empty] =
     Inl (ValidationError [(''action'', ''unexpected value'')])
   \<and> ''target'' \<notin> dom (Map.empty :: raw_record)
   \<and> ValidationError [(''action'', ''unexpected value'')] \<noteq>
       ValidationError [(''__root__'', ''target must be specified'')]"
  by (simp add: load_prompts_from_yaml_def init_invert)









section \<open>The guided loss\<close>

text \<open>
  C1. For a pair whose action is \<^verbatim>\<open>erase\<close>, \<^verbatim>\<open>loss\<close> returns the value of the loss function
  on the target latents and the reference
  \<open>neutral - guidance_scale * (positive - unconditional)\<close>, and does nothing more to it,
  whatever the arithmetic of the tensors and whatever the loss function. On the latents
  \<open>[0]\<close>, \<open>[2]\<close>, \<open>[0]\<close>, \<open>[0]\<close> with guidance scale 1.0 and the absolute difference as loss
  function the result is 2 (these numbers and every intermediate result are integers of small
  size, on which floating-point arithmetic is exact).
\<close>

theorem loss_erase:
  assumes "PromptPair.action self = ''erase''"
  shows "loss A self target_latents positive_latents unconditional_latents neutral_latents =
           Inr (loss_fn self target_latents
                  (sub A neutral_latents
                     (mul A (PromptPair.guidance_scale self)
                        (sub A positive_latents unconditional_latents))))
     \<and> loss exact
          \<lparr>loss_fn = absolute_difference, target = [], positive = [], unconditional = [],
           neutral = [], guidance_scale = 1.0, resolution = 512, dynamic_resolution = False,
           batch_size = 1, action = ''erase''\<rparr> [0] [2] [0] [0] = Inr 2"
  using assms by (simp add: loss_def erase_def exact_def absolute_difference_def)

text \<open>
  The same pair with guidance scale 3 and the latents \<open>[1, 1]\<close>, \<open>[2, 4]\<close>, \<open>[1, 1]\<close>,
  \<open>[0, 0]\<close>: the reference is \<open>[-3, -9]\<close> and the loss is 14.
\<close>

theorem loss_erase_witness:
  "loss exact
     \<lparr>loss_fn = absolute_difference, target = [], positive = [], unconditional = [],
      neutral = [], guidance_scale = 3, resolution = 512, dynamic_resolution = False,
      batch_size = 1, action = ''erase''\<rparr> [1, 1] [2, 4] [1, 1] [0, 0] = Inr 14"
proof -
  let ?self = "\<lparr>loss_fn = absolute_difference, target = [], positive = [],
      unconditional = [], neutral = [], guidance_scale = 3::real, resolution = 512,
      dynamic_resolution = False, batch_size = 1, action = ''erase''\<rparr>"
  have a: "PromptPair.action ?self = ''erase''" by simp
  from loss_erase [OF a, of exact "[1, 1]" "[2, 4]" "[1, 1]" "[0, 0]"]
  show ?thesis by (simp add: exact_def absolute_difference_def)
qed

text \<open>
  The two references differ in one sign. Where the arithmetic is exact, they are mirror images
  of each other in the neutral latents; the arithmetic of floating-point tensors rounds, and
  this lemma says nothing about it.
\<close>

lemma references_mirror_in_exact_arithmetic:
  assumes "length positive_latents = length neutral_latents"
    and "length unconditional_latents = length neutral_latents"
  shows "add exact
           (sub exact neutral_latents (mul exact g (sub exact positive_latents unconditional_latents)))
           (add exact neutral_latents (mul exact g (sub exact positive_latents unconditional_latents)))
         = mul exact 2 neutral_latents"
  using assms by (simp add: exact_def list_eq_iff_nth_eq)

end
